theory Spec2Isabelle
  imports Main "HOL-Library.Sublist"
begin

section \<open>Text\<close>

text \<open>
  A text is a list of characters; a character stands for a code unit below 256, so the
  degree sign of the sample data is the single character \<open>0xB0\<close>.

  The program lowercases in two places that do not agree outside ASCII:
  \<^item> JavaScript's \<open>message.toLowerCase()\<close> maps \<open>A\<close>..\<open>Z\<close> and the capital letters
    \<open>0xC0\<close>..\<open>0xDE\<close> (all but the multiplication sign \<open>0xD7\<close>) to the letter 32 places
    further on;
  \<^item> SQLite's \<open>LOWER(X)\<close> maps \<open>A\<close>..\<open>Z\<close> only.
\<close>

definition ascii_upper :: "char \<Rightarrow> bool" where
  "ascii_upper c = (65 \<le> (of_char c :: nat) \<and> (of_char c :: nat) \<le> 90)"

definition latin1_upper :: "char \<Rightarrow> bool" where
  "latin1_upper c =
     (192 \<le> (of_char c :: nat) \<and> (of_char c :: nat) \<le> 222 \<and> (of_char c :: nat) \<noteq> 215)"

definition shift_lower :: "char \<Rightarrow> char" where
  "shift_lower c = char_of ((of_char c :: nat) + 32)"

definition toLowerCase_char :: "char \<Rightarrow> char" where
  "toLowerCase_char c = (if ascii_upper c \<or> latin1_upper c then shift_lower c else c)"

definition toLowerCase :: "string \<Rightarrow> string" where
  "toLowerCase s = map toLowerCase_char s"

definition LOWER_char :: "char \<Rightarrow> char" where
  "LOWER_char c = (if ascii_upper c then shift_lower c else c)"

definition LOWER :: "string \<Rightarrow> string" where
  "LOWER s = map LOWER_char s"

text \<open>
  \<open>s.includes(t)\<close> of JavaScript: \<open>t\<close> occurs in \<open>s\<close> as a contiguous run of characters,
  starting at some position of \<open>s\<close>.
\<close>

fun includes_str :: "string \<Rightarrow> string \<Rightarrow> bool" where
  "includes_str [] t = (t = [])"
| "includes_str (c # cs) t = (prefix t (c # cs) \<or> includes_str cs t)"

text \<open>
  The comparison behind \<open>X LIKE P\<close> of SQLite, with no \<open>ESCAPE\<close> clause (the query has
  none), on a pattern and a text that hold no NUL: in the pattern a percent sign matches
  any run of characters, also the empty one, an underscore matches exactly one
  character, and any other character matches itself, two ASCII letters being equal when
  they differ in case only.
\<close>

definition like_char :: "char \<Rightarrow> char \<Rightarrow> bool" where
  "like_char p c = (p = c \<or> LOWER_char p = LOWER_char c)"

fun patternCompare :: "string \<Rightarrow> string \<Rightarrow> bool" where
  "patternCompare [] s = (s = [])"
| "patternCompare (p # ps) [] = (p = CHR ''%'' \<and> patternCompare ps [])"
| "patternCompare (p # ps) (c # cs) =
     (if p = CHR ''%'' then patternCompare ps (c # cs) \<or> patternCompare (p # ps) cs
      else (p = CHR ''_'' \<or> like_char p c) \<and> patternCompare ps cs)"

text \<open>
  SQLite hands the pattern and the text to the comparison as C strings: each ends at its
  first NUL, and what follows the NUL is not read.
\<close>

definition cstring :: "string \<Rightarrow> string" where
  "cstring s = takeWhile (\<lambda>c. c \<noteq> CHR 0x00) s"

text \<open>
  The length of a text in bytes, as the driver binds it (UTF-8): one byte for a
  character below 128, two for the others.
\<close>

definition utf8_char_bytes :: "char \<Rightarrow> int" where
  "utf8_char_bytes c = (if (of_char c :: int) < 128 then 1 else 2)"

definition utf8_bytes :: "string \<Rightarrow> int" where
  "utf8_bytes s = sum_list (map utf8_char_bytes s)"

definition SQLITE_MAX_LIKE_PATTERN_LENGTH :: int where
  "SQLITE_MAX_LIKE_PATTERN_LENGTH = 50000"

section \<open>The diseases table\<close>

text \<open>
  One row of the table \<open>diseases\<close>. The column \<open>id\<close> is the row id of the table
  (\<open>INTEGER PRIMARY KEY AUTOINCREMENT\<close>); the five text columns are \<open>NOT NULL\<close>.
\<close>

record disease =
  rowid :: int
  name :: string
  symptoms :: string
  causes :: string
  prevention :: string
  when_to_see_doctor :: string

text \<open>
  The database: the rows in the order a scan of the table returns them (ascending row
  id), and the counter SQLite keeps for an \<open>AUTOINCREMENT\<close> table, the largest row id
  it has ever handed out. A table that was just created is empty, with the counter at 0.
\<close>

record db =
  rows :: "disease list"
  sqlite_sequence :: int

definition fresh :: db where
  "fresh = \<lparr>rows = [], sqlite_sequence = 0\<rparr>"

text \<open>
  The body of a request that writes a disease. Each of the five properties is a text or
  is missing (\<open>undefined\<close> or \<open>null\<close>, which the driver binds as \<open>NULL\<close>).
\<close>

record disease_body =
  body_name :: "string option"
  body_symptoms :: "string option"
  body_causes :: "string option"
  body_prevention :: "string option"
  body_when_to_see_doctor :: "string option"

datatype sql_error =
  NotNull string      \<comment> \<open>\<open>NOT NULL constraint failed\<close>, on the named column\<close>
| Full                \<comment> \<open>no row id is left\<close>
| LikeTooComplex      \<comment> \<open>\<open>LIKE or GLOB pattern too complex\<close>\<close>

definition MAX_ROWID :: int where
  "MAX_ROWID = 9223372036854775807"

definition largest :: "db \<Rightarrow> int" where
  "largest d = fold max (map rowid (rows d)) (sqlite_sequence d)"

text \<open>The first column, in the table's order, that would receive \<open>NULL\<close>.\<close>

definition not_null :: "disease_body \<Rightarrow> string option" where
  "not_null b =
     (if body_name b = None then Some ''name''
      else if body_symptoms b = None then Some ''symptoms''
      else if body_causes b = None then Some ''causes''
      else if body_prevention b = None then Some ''prevention''
      else if body_when_to_see_doctor b = None then Some ''when_to_see_doctor''
      else None)"

definition text_of :: "string option \<Rightarrow> string" where
  "text_of v = (case v of Some s \<Rightarrow> s | None \<Rightarrow> [])"

definition set_columns :: "disease_body \<Rightarrow> disease \<Rightarrow> disease" where
  "set_columns b r =
     r\<lparr>name := text_of (body_name b), symptoms := text_of (body_symptoms b),
       causes := text_of (body_causes b), prevention := text_of (body_prevention b),
       when_to_see_doctor := text_of (body_when_to_see_doctor b)\<rparr>"

definition new_row :: "int \<Rightarrow> disease_body \<Rightarrow> disease" where
  "new_row i b =
     \<lparr>rowid = i, name = text_of (body_name b), symptoms = text_of (body_symptoms b),
      causes = text_of (body_causes b), prevention = text_of (body_prevention b),
      when_to_see_doctor = text_of (body_when_to_see_doctor b)\<rparr>"

text \<open>
  \<open>INSERT INTO diseases (name, symptoms, causes, prevention, when_to_see_doctor)
  VALUES (?, ?, ?, ?, ?)\<close>. The new row id is one more than the largest id the table
  holds or has ever held; when that is the largest 64-bit integer the statement fails.
  A statement that fails changes nothing. The result carries \<open>this.lastID\<close>.
\<close>

definition sql_insert :: "db \<Rightarrow> disease_body \<Rightarrow> sql_error + (db \<times> int)" where
  "sql_insert d b =
     (if largest d = MAX_ROWID then Inl Full
      else case not_null b of
        Some col \<Rightarrow> Inl (NotNull col)
      | None \<Rightarrow>
          Inr (\<lparr>rows = rows d @ [new_row (largest d + 1) b],
                sqlite_sequence = largest d + 1\<rparr>, largest d + 1))"

text \<open>
  \<open>UPDATE diseases SET name = ?, symptoms = ?, causes = ?, prevention = ?,
  when_to_see_doctor = ? WHERE id = ?\<close>. The constraint is checked on the rows the
  statement touches, so an update of no row succeeds with \<open>this.changes = 0\<close> whatever
  the values are.
\<close>

definition sql_update :: "db \<Rightarrow> int \<Rightarrow> disease_body \<Rightarrow> sql_error + (db \<times> nat)" where
  "sql_update d i b =
     (if filter (\<lambda>r. rowid r = i) (rows d) = [] then Inr (d, 0)
      else case not_null b of
        Some col \<Rightarrow> Inl (NotNull col)
      | None \<Rightarrow>
          Inr (d\<lparr>rows := map (\<lambda>r. if rowid r = i then set_columns b r else r) (rows d)\<rparr>,
               length (filter (\<lambda>r. rowid r = i) (rows d))))"

text \<open>\<open>DELETE FROM diseases WHERE id = ?\<close>, with \<open>this.changes\<close>.\<close>

definition sql_delete :: "db \<Rightarrow> int \<Rightarrow> db \<times> nat" where
  "sql_delete d i =
     (d\<lparr>rows := filter (\<lambda>r. rowid r \<noteq> i) (rows d)\<rparr>,
      length (filter (\<lambda>r. rowid r = i) (rows d)))"

text \<open>
  \<open>SELECT * FROM diseases WHERE id = ?\<close> through \<open>db.get\<close>: the first row, if any.

  In the three statements with \<open>WHERE id = ?\<close> the parameter is \<open>req.params.id\<close>, a
  text; the integer affinity of the column turns a text that spells an integer into
  that integer before it is compared. The model starts from the integer.
\<close>

definition sql_get :: "db \<Rightarrow> int \<Rightarrow> disease option" where
  "sql_get d i = find (\<lambda>r. rowid r = i) (rows d)"

text \<open>
  \<open>X LIKE P\<close>: a pattern of more than 50000 bytes is refused with an error, before
  anything is compared; otherwise pattern and text are compared as C strings.
\<close>

definition LIKE :: "string \<Rightarrow> string \<Rightarrow> sql_error + bool" where
  "LIKE p s =
     (if utf8_bytes p > SQLITE_MAX_LIKE_PATTERN_LENGTH then Inl LikeTooComplex
      else Inr (patternCompare (cstring p) (cstring s)))"

text \<open>\<open>A OR B\<close>: an error in an operand that is evaluated is the error of the whole.\<close>

definition sql_OR :: "sql_error + bool \<Rightarrow> sql_error + bool \<Rightarrow> sql_error + bool" where
  "sql_OR a b = (case a of Inl err \<Rightarrow> Inl err | Inr v \<Rightarrow> if v then Inr True else b)"

text \<open>
  The search of the chatbot:
  \<open>SELECT * FROM diseases WHERE LOWER(name) LIKE ? OR LOWER(symptoms) LIKE ? OR
  LOWER(causes) LIKE ?\<close>, each parameter bound to the search term between two percent
  signs. The condition is evaluated on each row in turn; \<open>db.all\<close> calls back with the
  rows that satisfy it, or with the error of the first row on which it fails.
\<close>

definition like_pattern :: "string \<Rightarrow> string" where
  "like_pattern term = ''%'' @ term @ ''%''"

definition row_matches :: "string \<Rightarrow> disease \<Rightarrow> sql_error + bool" where
  "row_matches term r =
     sql_OR (sql_OR (LIKE (like_pattern term) (LOWER (name r)))
                    (LIKE (like_pattern term) (LOWER (symptoms r))))
            (LIKE (like_pattern term) (LOWER (causes r)))"

fun where_rows :: "(disease \<Rightarrow> sql_error + bool) \<Rightarrow> disease list \<Rightarrow> sql_error + disease list" where
  "where_rows cond [] = Inr []"
| "where_rows cond (r # rs) =
     (case cond r of
        Inl err \<Rightarrow> Inl err
      | Inr v \<Rightarrow>
          (case where_rows cond rs of
             Inl err \<Rightarrow> Inl err
           | Inr found \<Rightarrow> Inr (if v then r # found else found)))"

definition sql_search :: "db \<Rightarrow> string \<Rightarrow> sql_error + disease list" where
  "sql_search d term = where_rows (row_matches term) (rows d)"

section \<open>Sample data\<close>

definition sampleDiseases :: "disease_body list" where
  "sampleDiseases =
    [\<lparr>body_name = Some ''Diabetes'',
      body_symptoms = Some ''Increased thirst, frequent urination, extreme hunger, unexplained weight loss, fatigue, blurred vision, slow-healing sores'',
      body_causes = Some ''Insulin resistance, pancreas not producing enough insulin, genetic factors, obesity, sedentary lifestyle'',
      body_prevention = Some ''Maintain healthy weight, exercise regularly (30 mins daily), eat balanced diet with less sugar, monitor blood sugar levels, avoid smoking'',
      body_when_to_see_doctor = Some ''If you experience excessive thirst and urination, unexplained weight loss, or persistent fatigue. Regular checkups if you have family history.''\<rparr>,
     \<lparr>body_name = Some ''Dengue'',
      body_symptoms = Some ''High fever, severe headache, pain behind eyes, joint and muscle pain, nausea, vomiting, skin rash, mild bleeding (nose/gums)'',
      body_causes = Some ''Aedes mosquito bite carrying dengue virus, standing water breeding grounds, tropical climate areas'',
      body_prevention = Some ''Use mosquito repellent, wear long sleeves, eliminate standing water, use mosquito nets, keep surroundings clean'',
      body_when_to_see_doctor = Some ''Immediately if you have high fever with severe headache, persistent vomiting, bleeding, difficulty breathing, or severe abdominal pain.''\<rparr>,
     \<lparr>body_name = Some ''Malaria'',
      body_symptoms = Some ''High fever with chills, sweating, headache, nausea, vomiting, muscle pain, fatigue, anemia'',
      body_causes = Some ''Anopheles mosquito bite carrying plasmodium parasite, exposure to infected blood'',
      body_prevention = Some ''Sleep under mosquito nets, use insect repellent, take antimalarial medication in high-risk areas, eliminate mosquito breeding sites'',
      body_when_to_see_doctor = Some ''Seek immediate care for high fever after visiting malaria-prone areas, severe headache, confusion, seizures, or difficulty breathing.''\<rparr>,
     \<lparr>body_name = Some ''Common Cold'',
      body_symptoms = Some ''Runny nose, sore throat, cough, sneezing, mild headache, slight fever, body aches'',
      body_causes = Some ''Viral infection (rhinovirus), spread through droplets, weakened immunity, seasonal changes'',
      body_prevention = Some ''Wash hands frequently, avoid close contact with sick people, boost immunity with vitamin C, stay hydrated, get enough sleep'',
      body_when_to_see_doctor = Some (''If symptoms last more than 10 days, fever above 101.3'' @ [CHR 0xB0] @ ''F, difficulty breathing, severe throat pain, or symptoms worsen after improving.'')\<rparr>,
     \<lparr>body_name = Some ''Hypertension'',
      body_symptoms = Some ''Usually no symptoms (silent killer), sometimes headaches, shortness of breath, nosebleeds in severe cases'',
      body_causes = Some ''High salt intake, obesity, lack of exercise, stress, smoking, alcohol, genetic factors'',
      body_prevention = Some ''Reduce salt intake, exercise regularly, maintain healthy weight, manage stress, limit alcohol, quit smoking, monitor blood pressure'',
      body_when_to_see_doctor = Some ''Regular checkups recommended. Seek immediate care for severe headache, chest pain, vision problems, or difficulty breathing.''\<rparr>]"

text \<open>
  \<open>stmt.run\<close> inside \<open>forEach\<close>: one insert for each sample, with no callback, so a
  statement that fails is skipped and the next one runs.
\<close>

definition stmt_run :: "db \<Rightarrow> disease_body \<Rightarrow> db" where
  "stmt_run d b = (case sql_insert d b of Inl e \<Rightarrow> d | Inr (d', i) \<Rightarrow> d')"

text \<open>The samples go in only if \<open>SELECT COUNT(*)\<close> is 0.\<close>

definition insertSampleData :: "db \<Rightarrow> db" where
  "insertSampleData d =
     (if int (length (rows d)) = 0 then foldl stmt_run d sampleDiseases else d)"

text \<open>
  \<open>CREATE TABLE IF NOT EXISTS\<close> leaves an existing table as it is; a start of the
  server then runs \<open>insertSampleData\<close> on whatever the database holds.
\<close>

definition createTables :: "db \<Rightarrow> db" where
  "createTables d = insertSampleData d"

section \<open>The routes\<close>

datatype error_text =
  Literal string             \<comment> \<open>a text the program writes itself\<close>
| SqliteMessage sql_error    \<comment> \<open>\<open>err.message\<close> of the driver\<close>

datatype json =
  DiseasesJson "disease list"             \<comment> \<open>\<open>{ diseases }\<close>\<close>
| DiseaseJson disease                     \<comment> \<open>\<open>{ disease }\<close>\<close>
| MessageIdJson string int                \<comment> \<open>\<open>{ message, id }\<close>\<close>
| MessageJson string                      \<comment> \<open>\<open>{ message }\<close>\<close>
| ErrorJson error_text                    \<comment> \<open>\<open>{ error }\<close>\<close>
| ReplyJson string "disease option"       \<comment> \<open>\<open>{ reply }\<close> or \<open>{ reply, disease }\<close>\<close>

record response =
  status :: nat
  body :: json

definition res_json :: "json \<Rightarrow> response" where
  "res_json j = \<lparr>status = 200, body = j\<rparr>"

definition res_status_json :: "nat \<Rightarrow> json \<Rightarrow> response" where
  "res_status_json n j = \<lparr>status = n, body = j\<rparr>"

text \<open>\<open>GET /api/diseases\<close>\<close>

definition get_diseases :: "db \<Rightarrow> response" where
  "get_diseases d = res_json (DiseasesJson (rows d))"

text \<open>\<open>GET /api/diseases/:id\<close>\<close>

definition get_disease :: "db \<Rightarrow> int \<Rightarrow> response" where
  "get_disease d i =
     (case sql_get d i of
        None \<Rightarrow> res_status_json 404 (ErrorJson (Literal ''Disease not found''))
      | Some row \<Rightarrow> res_json (DiseaseJson row))"

text \<open>\<open>POST /api/diseases\<close>\<close>

definition post_disease :: "db \<Rightarrow> disease_body \<Rightarrow> response \<times> db" where
  "post_disease d b =
     (case sql_insert d b of
        Inl err \<Rightarrow> (res_status_json 500 (ErrorJson (SqliteMessage err)), d)
      | Inr (d', lastID) \<Rightarrow>
          (res_json (MessageIdJson ''Disease added successfully'' lastID), d'))"

text \<open>\<open>PUT /api/diseases/:id\<close>\<close>

definition put_disease :: "db \<Rightarrow> int \<Rightarrow> disease_body \<Rightarrow> response \<times> db" where
  "put_disease d i b =
     (case sql_update d i b of
        Inl err \<Rightarrow> (res_status_json 500 (ErrorJson (SqliteMessage err)), d)
      | Inr (d', changes) \<Rightarrow>
          if changes = 0
          then (res_status_json 404 (ErrorJson (Literal ''Disease not found'')), d')
          else (res_json (MessageJson ''Disease updated successfully''), d'))"

text \<open>\<open>DELETE /api/diseases/:id\<close>\<close>

definition delete_disease :: "db \<Rightarrow> int \<Rightarrow> response \<times> db" where
  "delete_disease d i =
     (case sql_delete d i of
        (d', changes) \<Rightarrow>
          if changes = 0
          then (res_status_json 404 (ErrorJson (Literal ''Disease not found'')), d')
          else (res_json (MessageJson ''Disease deleted successfully''), d'))"

section \<open>The chatbot\<close>

text \<open>
  The reply for one disease. The query is searched for the words in the order of the
  source; the last branch writes all four sections, the fourth without the two line
  breaks at its end.
\<close>

definition formatChatbotResponse :: "disease \<Rightarrow> string \<Rightarrow> string" where
  "formatChatbotResponse disease query =
     (let response = ''**'' @ name disease @ ''**\<newline>\<newline>'' in
      if includes_str query ''symptom'' then
        response @ ''**Symptoms:**\<newline>'' @ symptoms disease @ ''\<newline>\<newline>''
      else if includes_str query ''cause'' then
        response @ ''**Causes:**\<newline>'' @ causes disease @ ''\<newline>\<newline>''
      else if includes_str query ''prevent'' \<or> includes_str query ''avoid'' then
        response @ ''**Prevention:**\<newline>'' @ prevention disease @ ''\<newline>\<newline>''
      else if includes_str query ''doctor'' \<or> includes_str query ''hospital'' then
        response @ ''**When to see a doctor:**\<newline>'' @ when_to_see_doctor disease
          @ ''\<newline>\<newline>''
      else
        (((response @ ''**Symptoms:**\<newline>'' @ symptoms disease @ ''\<newline>\<newline>'')
          @ ''**Causes:**\<newline>'' @ causes disease @ ''\<newline>\<newline>'')
          @ ''**Prevention:**\<newline>'' @ prevention disease @ ''\<newline>\<newline>'')
          @ ''**When to see a doctor:**\<newline>'' @ when_to_see_doctor disease)"

definition fallback_reply :: string where
  "fallback_reply = ''I'm sorry, I couldn't find information about that. Please try asking about common diseases like diabetes, dengue, malaria, common cold, or hypertension. You can also ask about symptoms, causes, or prevention.''"

text \<open>
  What \<open>req.body.message\<close> can be after the JSON body is parsed: nothing at all, or any
  JSON value.
\<close>

datatype js_value =
  JUndefined
| JNull
| JBoolean bool
| JNumber int
| JString string
| JArray "js_value list"
| JObject "(string \<times> js_value) list"

datatype js_error = TypeError

text \<open>
  \<open>message.toLowerCase()\<close>. Only a string has the method: reading a property of
  \<open>undefined\<close> or \<open>null\<close> throws, a boolean, a number and an array have no such
  property, and a property of that name in an object parsed from JSON is never a
  function; calling what is not a function throws.
\<close>

fun call_toLowerCase :: "js_value \<Rightarrow> js_error + string" where
  "call_toLowerCase (JString s) = Inr (toLowerCase s)"
| "call_toLowerCase v = Inl TypeError"

text \<open>
  \<open>POST /api/chatbot\<close>. \<open>Inl\<close> is an exception thrown by the handler before it has
  answered. The callback of the search answers 500 on an error, the fallback reply on
  no row, and otherwise the reply for the first row. The handler runs on the bodies
  that \<open>express.json()\<close> has let through, which are at most 100 kB long.
\<close>

definition post_chatbot :: "db \<Rightarrow> js_value \<Rightarrow> js_error + response" where
  "post_chatbot d message =
     (case call_toLowerCase message of
        Inl exn \<Rightarrow> Inl exn
      | Inr searchTerm \<Rightarrow>
          (case sql_search d searchTerm of
             Inl err \<Rightarrow> Inr (res_status_json 500 (ErrorJson (SqliteMessage err)))
           | Inr [] \<Rightarrow> Inr (res_json (ReplyJson fallback_reply None))
           | Inr (row # _) \<Rightarrow>
               Inr (res_json (ReplyJson (formatChatbotResponse row searchTerm) (Some row)))))"

section \<open>Histories\<close>

text \<open>
  What can happen to the database: a start of the server, or one of the requests. The
  states the program can be in are those a history leads to from the fresh table.
\<close>

datatype request =
  Start
| GetDiseases
| GetDisease int
| PostDisease disease_body
| PutDisease int disease_body
| DeleteDisease int
| PostChatbot js_value

fun handle :: "db \<Rightarrow> request \<Rightarrow> db" where
  "handle d Start = createTables d"
| "handle d GetDiseases = d"
| "handle d (GetDisease i) = d"
| "handle d (PostDisease b) = snd (post_disease d b)"
| "handle d (PutDisease i b) = snd (put_disease d i b)"
| "handle d (DeleteDisease i) = snd (delete_disease d i)"
| "handle d (PostChatbot m) = d"

definition run :: "db \<Rightarrow> request list \<Rightarrow> db" where
  "run d rs = foldl handle d rs"

section \<open>The specification's notions\<close>

text \<open>
  The definitions of this section follow the words of the specification, or name the
  conditions under which the theorems compare them with the code.
\<close>

text \<open>\<open>t\<close> is a substring of \<open>s\<close>.\<close>

definition substring :: "string \<Rightarrow> string \<Rightarrow> bool" where
  "substring t s = (\<exists>pre post. s = pre @ t @ post)"

text \<open>
  \<open>t\<close> is a case-insensitive substring of \<open>s\<close>: a substring once both are lowercased,
  the way the query is.
\<close>

definition case_insensitive_substring :: "string \<Rightarrow> string \<Rightarrow> bool" where
  "case_insensitive_substring t s = substring (toLowerCase t) (toLowerCase s)"

text \<open>
  The match of section 4.3, step 2: the normalized query is a case-insensitive substring
  of the name, of the symptoms or of the causes.
\<close>

definition spec_matches :: "string \<Rightarrow> disease \<Rightarrow> bool" where
  "spec_matches message r =
     (case_insensitive_substring (toLowerCase message) (name r) \<or>
      case_insensitive_substring (toLowerCase message) (symptoms r) \<or>
      case_insensitive_substring (toLowerCase message) (causes r))"



text \<open>A search term whose pattern the store accepts.\<close>

definition pattern_fits :: "string \<Rightarrow> bool" where
  "pattern_fits term = (utf8_bytes (like_pattern term) \<le> SQLITE_MAX_LIKE_PATTERN_LENGTH)"

text \<open>The value of the search condition on a row, when the pattern is accepted.\<close>

definition row_selects :: "string \<Rightarrow> disease \<Rightarrow> bool" where
  "row_selects term r =
     (patternCompare (cstring (like_pattern term)) (cstring (LOWER (name r))) \<or>
      patternCompare (cstring (like_pattern term)) (cstring (LOWER (symptoms r))) \<or>
      patternCompare (cstring (like_pattern term)) (cstring (LOWER (causes r))))"


text \<open>A text without capital ASCII letters.\<close>

definition folded :: "string \<Rightarrow> bool" where
  "folded t = (\<forall>c \<in> set t. \<not> ascii_upper c)"

text \<open>
  The category dispatch of section 4.3, step 4, as section 9 describes it: an ordered
  list of rules, each a set of keywords and the section it selects; the first rule with a
  keyword in the query selects its section alone, and a query with no keyword gets all
  four sections in their fixed order.
\<close>

datatype reply_section = Symptoms | Causes | Prevention | CareGuidance

definition category_rules :: "(string list \<times> reply_section) list" where
  "category_rules =
     [([''symptom''], Symptoms),
      ([''cause''], Causes),
      ([''prevent'', ''avoid''], Prevention),
      ([''doctor'', ''hospital''], CareGuidance)]"

fun select_sections :: "(string list \<times> reply_section) list \<Rightarrow> string \<Rightarrow> reply_section list" where
  "select_sections [] query = [Symptoms, Causes, Prevention, CareGuidance]"
| "select_sections ((keywords, sec) # rules) query =
     (if list_ex (\<lambda>k. substring k query) keywords then [sec]
      else select_sections rules query)"

text \<open>
  The output format of step 5: a heading line with the name, then the sections, each a
  label in bold style and the raw text of the field. Blank lines separate the parts; a
  section that stands alone is followed by one.
\<close>

definition heading :: "disease \<Rightarrow> string" where
  "heading r = ''**'' @ name r @ ''**\<newline>\<newline>''"

fun section_text :: "disease \<Rightarrow> reply_section \<Rightarrow> string" where
  "section_text r Symptoms = ''**Symptoms:**\<newline>'' @ symptoms r"
| "section_text r Causes = ''**Causes:**\<newline>'' @ causes r"
| "section_text r Prevention = ''**Prevention:**\<newline>'' @ prevention r"
| "section_text r CareGuidance = ''**When to see a doctor:**\<newline>'' @ when_to_see_doctor r"

fun join_sections :: "string list \<Rightarrow> string" where
  "join_sections [] = []"
| "join_sections [t] = t"
| "join_sections (t # u # ts) = t @ ''\<newline>\<newline>'' @ join_sections (u # ts)"

definition render :: "disease \<Rightarrow> reply_section list \<Rightarrow> string" where
  "render r secs =
     (case secs of
        [sec] \<Rightarrow> heading r @ section_text r sec @ ''\<newline>\<newline>''
      | _ \<Rightarrow> heading r @ join_sections (map (section_text r) secs))"

text \<open>The message of a request is a string (\<open>typeof message === 'string'\<close>).\<close>

fun is_string :: "js_value \<Rightarrow> bool" where
  "is_string (JString s) = True"
| "is_string v = False"

text \<open>
  The invariant of the table: no two rows share a row id, and no row id exceeds the
  counter.
\<close>

definition ids :: "db \<Rightarrow> int set" where
  "ids d = rowid ` set (rows d)"

definition table_inv :: "db \<Rightarrow> bool" where
  "table_inv d =
     (distinct (map rowid (rows d)) \<and> list_all (\<lambda>r. rowid r \<le> sqlite_sequence d) (rows d))"

text \<open>The five texts of a body, all present.\<close>

definition full_body :: "string \<Rightarrow> string \<Rightarrow> string \<Rightarrow> string \<Rightarrow> string \<Rightarrow> disease_body" where
  "full_body n s c p w =
     \<lparr>body_name = Some n, body_symptoms = Some s, body_causes = Some c,
      body_prevention = Some p, body_when_to_see_doctor = Some w\<rparr>"

definition not_found :: response where
  "not_found = \<lparr>status = 404, body = ErrorJson (Literal ''Disease not found'')\<rparr>"

section \<open>Texts: lowercasing, containment and \<open>LIKE\<close>\<close>

lemma includes_str_iff: "includes_str s t = (\<exists>pre post. s = pre @ t @ post)"
proof (induction s)
  case Nil
  then show ?case by auto
next
  case (Cons c cs)
  show ?case
  proof
    assume "includes_str (c # cs) t"
    then consider "prefix t (c # cs)" | "includes_str cs t" by auto
    then show "\<exists>pre post. c # cs = pre @ t @ post"
    proof cases
      case 1
      then obtain post where "c # cs = t @ post" by (auto simp: prefix_def)
      then have "c # cs = [] @ t @ post" by simp
      then show ?thesis by blast
    next
      case 2
      with Cons.IH obtain pre post where "cs = pre @ t @ post" by auto
      then have "c # cs = (c # pre) @ t @ post" by simp
      then show ?thesis by blast
    qed
  next
    assume "\<exists>pre post. c # cs = pre @ t @ post"
    then obtain pre post where e: "c # cs = pre @ t @ post" by auto
    show "includes_str (c # cs) t"
    proof (cases pre)
      case Nil
      with e have "prefix t (c # cs)" by (simp add: prefix_def)
      then show ?thesis by simp
    next
      case (Cons a pre')
      with e have "cs = pre' @ t @ post" by simp
      with Cons.IH have "includes_str cs t" by blast
      then show ?thesis by simp
    qed
  qed
qed

lemma substring_code [code]: "substring t s = includes_str s t"
  by (simp add: substring_def includes_str_iff)



lemma LOWER_char_fix: "\<not> ascii_upper c \<Longrightarrow> LOWER_char c = c"
  by (simp add: LOWER_char_def)












lemma LOWER_folded: "folded s \<Longrightarrow> LOWER s = s"
  by (induction s) (auto simp: folded_def LOWER_def LOWER_char_fix)










lemma LIKE_fits:
  "pattern_fits t \<Longrightarrow>
   LIKE (like_pattern t) s = Inr (patternCompare (cstring (like_pattern t)) (cstring s))"
  by (simp add: LIKE_def pattern_fits_def)

lemma LIKE_too_long: "\<not> pattern_fits t \<Longrightarrow> LIKE (like_pattern t) s = Inl LikeTooComplex"
  by (simp add: LIKE_def pattern_fits_def)

lemma row_matches_fits: "pattern_fits t \<Longrightarrow> row_matches t r = Inr (row_selects t r)"
  by (simp add: row_matches_def row_selects_def LIKE_fits sql_OR_def)

lemma row_matches_too_long: "\<not> pattern_fits t \<Longrightarrow> row_matches t r = Inl LikeTooComplex"
  by (simp add: row_matches_def LIKE_too_long sql_OR_def)


lemma where_rows_filter:
  "\<forall>r \<in> set rs. cond r = Inr (sel r) \<Longrightarrow> where_rows cond rs = Inr (filter sel rs)"
  by (induction rs) simp_all

lemma where_rows_error:
  "rs \<noteq> [] \<Longrightarrow> \<forall>r \<in> set rs. cond r = Inl err \<Longrightarrow> where_rows cond rs = Inl err"
  by (cases rs) simp_all

lemma sql_search_fits: "pattern_fits t \<Longrightarrow> sql_search d t = Inr (filter (row_selects t) (rows d))"
  unfolding sql_search_def by (rule where_rows_filter) (simp add: row_matches_fits)

lemma sql_search_too_long:
  "\<not> pattern_fits t \<Longrightarrow> rows d \<noteq> [] \<Longrightarrow> sql_search d t = Inl LikeTooComplex"
  unfolding sql_search_def by (rule where_rows_error) (simp_all add: row_matches_too_long)

lemma sql_search_empty: "rows d = [] \<Longrightarrow> sql_search d t = Inr []"
  by (simp add: sql_search_def)

lemma toLowerCase_replicate_a:
  "toLowerCase (replicate n (CHR ''a'')) = replicate n (CHR ''a'')"
proof -
  have "toLowerCase_char (CHR ''a'') = CHR ''a''" by code_simp
  then show ?thesis by (simp add: toLowerCase_def)
qed

lemma LOWER_replicate_a: "LOWER (replicate n (CHR ''a'')) = replicate n (CHR ''a'')"
proof -
  have "LOWER_char (CHR ''a'') = CHR ''a''" by code_simp
  then show ?thesis by (simp add: LOWER_def)
qed

lemma utf8_bytes_replicate_a: "utf8_bytes (replicate n (CHR ''a'')) = int n"
proof -
  have "utf8_char_bytes (CHR ''a'') = 1" by code_simp
  then show ?thesis by (simp add: utf8_bytes_def sum_list_replicate)
qed

lemma pattern_fits_replicate_a:
  "pattern_fits (replicate n (CHR ''a'')) = (int n + 2 \<le> 50000)"
proof -
  have "utf8_char_bytes (CHR ''%'') = 1" by code_simp
  then have "utf8_bytes (like_pattern (replicate n (CHR ''a''))) = int n + 2"
    using utf8_bytes_replicate_a [of n] by (simp add: like_pattern_def utf8_bytes_def)
  then show ?thesis
    by (simp add: pattern_fits_def SQLITE_MAX_LIKE_PATTERN_LENGTH_def)
qed

lemma substring_length: "substring t s \<Longrightarrow> length t \<le> length s"
  by (auto simp: substring_def)


section \<open>The keyword match\<close>

lemma too_long_a:
  "50000 < int n + 2 \<Longrightarrow> \<not> pattern_fits (toLowerCase (replicate n (CHR ''a'')))"
  by (simp add: toLowerCase_replicate_a pattern_fits_replicate_a)





section \<open>The category dispatch\<close>

lemma select_sections_rules:
  "select_sections category_rules q =
     (if substring ''symptom'' q then [Symptoms]
      else if substring ''cause'' q then [Causes]
      else if substring ''prevent'' q \<or> substring ''avoid'' q then [Prevention]
      else if substring ''doctor'' q \<or> substring ''hospital'' q then [CareGuidance]
      else [Symptoms, Causes, Prevention, CareGuidance])"
  by (simp add: category_rules_def)

lemma format_render:
  "formatChatbotResponse r q = render r (select_sections category_rules q)"
  unfolding select_sections_rules
  by (simp add: formatChatbotResponse_def render_def heading_def substring_code)

text \<open>
  C2. For every record and every query text (the handler passes the lowercased
  message), the reply is the heading and the sections that the ordered rules select:
  the symptoms alone if the query contains \<open>symptom\<close>; else the causes alone if it
  contains \<open>cause\<close>; else the prevention alone if it contains \<open>prevent\<close> or \<open>avoid\<close>;
  else the care guidance alone if it contains \<open>doctor\<close> or \<open>hospital\<close>; otherwise all
  four, in the order symptoms, causes, prevention, care guidance. In particular a query
  that contains both \<open>symptom\<close> and \<open>doctor\<close> gets the symptoms section.
\<close>

theorem category_dispatch:
  "formatChatbotResponse r q = render r (select_sections category_rules q)
   \<and> select_sections category_rules q =
     (if substring ''symptom'' q then [Symptoms]
      else if substring ''cause'' q then [Causes]
      else if substring ''prevent'' q \<or> substring ''avoid'' q then [Prevention]
      else if substring ''doctor'' q \<or> substring ''hospital'' q then [CareGuidance]
      else [Symptoms, Causes, Prevention, CareGuidance])
   \<and> (substring ''symptom'' q \<and> substring ''doctor'' q \<longrightarrow>
        formatChatbotResponse r q = heading r @ section_text r Symptoms @ ''\<newline>\<newline>'')"
proof -
  have "formatChatbotResponse r q = heading r @ section_text r Symptoms @ ''\<newline>\<newline>''"
    if "substring ''symptom'' q"
    using that by (simp add: format_render select_sections_rules render_def)
  then show ?thesis
    using format_render select_sections_rules by blast
qed

text \<open>A query with both words, on a short record.\<close>

theorem category_dispatch_witness:
  "substring ''symptom'' ''symptoms or doctor'' \<and> substring ''doctor'' ''symptoms or doctor''
   \<and> formatChatbotResponse
        \<lparr>rowid = 2, name = ''Dengue'', symptoms = ''High fever'',
         causes = ''Aedes mosquito bite'', prevention = ''Use mosquito repellent'',
         when_to_see_doctor = ''Immediately''\<rparr> ''symptoms or doctor''
      = ''**Dengue**\<newline>\<newline>**Symptoms:**\<newline>High fever\<newline>\<newline>''"
proof -
  have h: "substring ''symptom'' ''symptoms or doctor''
      \<and> substring ''doctor'' ''symptoms or doctor''"
    by code_simp
  with category_dispatch [of "\<lparr>rowid = 2, name = ''Dengue'', symptoms = ''High fever'',
         causes = ''Aedes mosquito bite'', prevention = ''Use mosquito repellent'',
         when_to_see_doctor = ''Immediately''\<rparr>" "''symptoms or doctor''"]
  have "formatChatbotResponse
        \<lparr>rowid = 2, name = ''Dengue'', symptoms = ''High fever'',
         causes = ''Aedes mosquito bite'', prevention = ''Use mosquito repellent'',
         when_to_see_doctor = ''Immediately''\<rparr> ''symptoms or doctor''
      = heading \<lparr>rowid = 2, name = ''Dengue'', symptoms = ''High fever'',
         causes = ''Aedes mosquito bite'', prevention = ''Use mosquito repellent'',
         when_to_see_doctor = ''Immediately''\<rparr>
        @ section_text \<lparr>rowid = 2, name = ''Dengue'', symptoms = ''High fever'',
         causes = ''Aedes mosquito bite'', prevention = ''Use mosquito repellent'',
         when_to_see_doctor = ''Immediately''\<rparr> Symptoms @ ''\<newline>\<newline>''"
    by blast
  with h show ?thesis by (simp add: heading_def)
qed

section \<open>The chatbot's answers\<close>

text \<open>
  C3 fails on the code. On the store that holds exactly the five samples, the message
  \<open>diabetes symptoms\<close> selects no row: the whole lowercased message would have to occur
  within one name, one symptoms text or one causes text. The answer is the fallback
  reply, with no disease, and not the symptoms section of Diabetes.
\<close>

theorem chatbot_diabetes_symptoms:
  "map name (rows (createTables fresh))
     = [''Diabetes'', ''Dengue'', ''Malaria'', ''Common Cold'', ''Hypertension'']
   \<and> sql_search (createTables fresh) (toLowerCase ''diabetes symptoms'') = Inr []
   \<and> post_chatbot (createTables fresh) (JString ''diabetes symptoms'')
     = Inr \<lparr>status = 200, body = ReplyJson fallback_reply None\<rparr>"
  by code_simp

lemma search_none:
  "pattern_fits t \<or> rows d = [] \<Longrightarrow> list_all (\<lambda>r. \<not> row_selects t r) (rows d) \<Longrightarrow>
   sql_search d t = Inr []"
proof (cases "rows d = []")
  case True
  then show ?thesis by (simp add: sql_search_empty)
next
  case False
  assume "pattern_fits t \<or> rows d = []" "list_all (\<lambda>r. \<not> row_selects t r) (rows d)"
  with False show ?thesis
    by (simp add: sql_search_fits list_all_iff)
qed

lemma search_first:
  assumes "pattern_fits t" "rows d = pre @ r # post"
    "list_all (\<lambda>x. \<not> row_selects t x) pre" "row_selects t r"
  shows "sql_search d t = Inr (r # filter (row_selects t) post)"
proof -
  from assms(3) have "filter (row_selects t) pre = []"
    by (simp add: list_all_iff)
  with assms(1,2,4) show ?thesis
    by (simp add: sql_search_fits)
qed

lemma first_match_exists:
  assumes "list_ex P xs"
  shows "\<exists>pre r post. xs = pre @ r # post \<and> list_all (\<lambda>x. \<not> P x) pre \<and> P r"
proof -
  from assms have "\<exists>x \<in> set xs. P x" by (simp add: list_ex_iff)
  then obtain pre r post where "xs = pre @ r # post" "P r" "\<forall>y \<in> set pre. \<not> P y"
    using split_list_first_prop [of xs P] by blast
  then show ?thesis by (auto simp: list_all_iff)
qed

lemma post_chatbot_too_long:
  "\<not> pattern_fits (toLowerCase m) \<Longrightarrow> rows d \<noteq> [] \<Longrightarrow>
   post_chatbot d (JString m)
     = Inr \<lparr>status = 500, body = ErrorJson (SqliteMessage LikeTooComplex)\<rparr>"
  by (simp add: post_chatbot_def sql_search_too_long res_status_json_def)

lemma spec_matches_short:
  assumes "length (name r) < n" "length (symptoms r) < n" "length (causes r) < n"
  shows "\<not> spec_matches (replicate n c) r"
proof -
  have "\<not> substring (toLowerCase (toLowerCase (replicate n c))) (toLowerCase s)"
    if "length s < n" for s
    using that substring_length [of "toLowerCase (toLowerCase (replicate n c))" "toLowerCase s"]
    by (auto simp: toLowerCase_def)
  with assms show ?thesis
    by (simp add: spec_matches_def case_insensitive_substring_def)
qed

text \<open>
  C4, as amended. Let the search accept the pattern of the lowercased message (at most
  50000 bytes), or the store be empty. If the search condition is true on no row, the
  answer is the fixed fallback reply and carries no disease. If it is true on some row,
  the store has a first such row (the condition is false on every row before it), the
  reply is built from that row, and the answer carries it as the disease. When the
  pattern is longer and the store is not empty, the search fails and the answer is 500
  with the error of the store. The fallback reply names diabetes, dengue, malaria,
  common cold and hypertension, and symptoms, causes and prevention.
\<close>

theorem chatbot_reply:
  "((pattern_fits (toLowerCase m) \<or> rows d = [])
      \<and> list_all (\<lambda>x. \<not> row_selects (toLowerCase m) x) (rows d) \<longrightarrow>
      post_chatbot d (JString m) = Inr \<lparr>status = 200, body = ReplyJson fallback_reply None\<rparr>)
   \<and> (list_ex (row_selects (toLowerCase m)) (rows d) \<longrightarrow>
        (\<exists>pre r post. rows d = pre @ r # post
           \<and> list_all (\<lambda>x. \<not> row_selects (toLowerCase m) x) pre
           \<and> row_selects (toLowerCase m) r))
   \<and> (pattern_fits (toLowerCase m) \<and> rows d = pre @ r # post
        \<and> list_all (\<lambda>x. \<not> row_selects (toLowerCase m) x) pre
        \<and> row_selects (toLowerCase m) r \<longrightarrow>
      post_chatbot d (JString m) =
        Inr \<lparr>status = 200,
             body = ReplyJson (formatChatbotResponse r (toLowerCase m)) (Some r)\<rparr>)
   \<and> (\<not> pattern_fits (toLowerCase m) \<and> rows d \<noteq> [] \<longrightarrow>
      post_chatbot d (JString m)
        = Inr \<lparr>status = 500, body = ErrorJson (SqliteMessage LikeTooComplex)\<rparr>)
   \<and> list_all (\<lambda>w. substring w fallback_reply)
        [''diabetes'', ''dengue'', ''malaria'', ''common cold'', ''hypertension'',
         ''symptoms'', ''causes'', ''prevention'']"
proof -
  have a: "post_chatbot d (JString m)
      = Inr \<lparr>status = 200, body = ReplyJson fallback_reply None\<rparr>"
    if "pattern_fits (toLowerCase m) \<or> rows d = []"
      "list_all (\<lambda>x. \<not> row_selects (toLowerCase m) x) (rows d)"
    using search_none [OF that] by (simp add: post_chatbot_def res_json_def)
  have b: "post_chatbot d (JString m) =
        Inr \<lparr>status = 200,
             body = ReplyJson (formatChatbotResponse r (toLowerCase m)) (Some r)\<rparr>"
    if "pattern_fits (toLowerCase m)" "rows d = pre @ r # post"
       "list_all (\<lambda>x. \<not> row_selects (toLowerCase m) x) pre"
       "row_selects (toLowerCase m) r"
    using search_first [OF that] by (simp add: post_chatbot_def res_json_def)
  have c: "list_all (\<lambda>w. substring w fallback_reply)
        [''diabetes'', ''dengue'', ''malaria'', ''common cold'', ''hypertension'',
         ''symptoms'', ''causes'', ''prevention'']"
    by code_simp
  have e: "\<exists>pre r post. rows d = pre @ r # post
           \<and> list_all (\<lambda>x. \<not> row_selects (toLowerCase m) x) pre
           \<and> row_selects (toLowerCase m) r"
    if "list_ex (row_selects (toLowerCase m)) (rows d)"
    using that by (rule first_match_exists)
  have f: "post_chatbot d (JString m)
        = Inr \<lparr>status = 500, body = ErrorJson (SqliteMessage LikeTooComplex)\<rparr>"
    if "\<not> pattern_fits (toLowerCase m)" "rows d \<noteq> []"
    using that by (rule post_chatbot_too_long)
  from a b c e f show ?thesis by blast
qed

text \<open>
  On a store of two rows, an unknown word gets the fallback reply, \<open>Fever\<close> gets the
  second row (the first names a fever in its care guidance only), and a message of
  49999 letters gets the 500.
\<close>

theorem chatbot_reply_witness:
  "pattern_fits (toLowerCase ''xyzxyz-unknown'')
   \<and> list_all (\<lambda>x. \<not> row_selects (toLowerCase ''xyzxyz-unknown'') x)
     (rows
       \<lparr>rows =
          [\<lparr>rowid = 1, name = ''Cold'', symptoms = ''Cough'', causes = ''Virus'',
                prevention = ''Rest'', when_to_see_doctor = ''Fever''\<rparr>,
           \<lparr>rowid = 2, name = ''Flu'', symptoms = ''Fever'', causes = ''Virus'',
                prevention = ''Vaccine'', when_to_see_doctor = ''Always''\<rparr>],
         sqlite_sequence = 2\<rparr>)
   \<and> post_chatbot
       \<lparr>rows =
          [\<lparr>rowid = 1, name = ''Cold'', symptoms = ''Cough'', causes = ''Virus'',
                prevention = ''Rest'', when_to_see_doctor = ''Fever''\<rparr>,
           \<lparr>rowid = 2, name = ''Flu'', symptoms = ''Fever'', causes = ''Virus'',
                prevention = ''Vaccine'', when_to_see_doctor = ''Always''\<rparr>],
         sqlite_sequence = 2\<rparr>
       (JString ''xyzxyz-unknown'')
     = Inr \<lparr>status = 200, body = ReplyJson fallback_reply None\<rparr>
   \<and> pattern_fits (toLowerCase ''Fever'')
   \<and> list_ex (row_selects (toLowerCase ''Fever''))
     (rows
       \<lparr>rows =
          [\<lparr>rowid = 1, name = ''Cold'', symptoms = ''Cough'', causes = ''Virus'',
                prevention = ''Rest'', when_to_see_doctor = ''Fever''\<rparr>,
           \<lparr>rowid = 2, name = ''Flu'', symptoms = ''Fever'', causes = ''Virus'',
                prevention = ''Vaccine'', when_to_see_doctor = ''Always''\<rparr>],
         sqlite_sequence = 2\<rparr>)
   \<and> rows
       \<lparr>rows =
          [\<lparr>rowid = 1, name = ''Cold'', symptoms = ''Cough'', causes = ''Virus'',
                prevention = ''Rest'', when_to_see_doctor = ''Fever''\<rparr>,
           \<lparr>rowid = 2, name = ''Flu'', symptoms = ''Fever'', causes = ''Virus'',
                prevention = ''Vaccine'', when_to_see_doctor = ''Always''\<rparr>],
         sqlite_sequence = 2\<rparr>
     = [\<lparr>rowid = 1, name = ''Cold'', symptoms = ''Cough'', causes = ''Virus'',
                prevention = ''Rest'', when_to_see_doctor = ''Fever''\<rparr>]
       @ \<lparr>rowid = 2, name = ''Flu'', symptoms = ''Fever'', causes = ''Virus'',
                 prevention = ''Vaccine'', when_to_see_doctor = ''Always''\<rparr>
       # []
   \<and> list_all (\<lambda>x. \<not> row_selects (toLowerCase ''Fever'') x)
       [\<lparr>rowid = 1, name = ''Cold'', symptoms = ''Cough'', causes = ''Virus'',
                prevention = ''Rest'', when_to_see_doctor = ''Fever''\<rparr>]
   \<and> row_selects (toLowerCase ''Fever'')
       \<lparr>rowid = 2, name = ''Flu'', symptoms = ''Fever'', causes = ''Virus'',
               prevention = ''Vaccine'', when_to_see_doctor = ''Always''\<rparr>
   \<and> post_chatbot
       \<lparr>rows =
          [\<lparr>rowid = 1, name = ''Cold'', symptoms = ''Cough'', causes = ''Virus'',
                prevention = ''Rest'', when_to_see_doctor = ''Fever''\<rparr>,
           \<lparr>rowid = 2, name = ''Flu'', symptoms = ''Fever'', causes = ''Virus'',
                prevention = ''Vaccine'', when_to_see_doctor = ''Always''\<rparr>],
         sqlite_sequence = 2\<rparr>
       (JString ''Fever'')
     = Inr \<lparr>status = 200,
            body = ReplyJson
              (formatChatbotResponse
                 \<lparr>rowid = 2, name = ''Flu'', symptoms = ''Fever'', causes = ''Virus'',
                         prevention = ''Vaccine'', when_to_see_doctor = ''Always''\<rparr>
                 (toLowerCase ''Fever''))
              (Some
                 \<lparr>rowid = 2, name = ''Flu'', symptoms = ''Fever'', causes = ''Virus'',
                         prevention = ''Vaccine'', when_to_see_doctor = ''Always''\<rparr>)\<rparr>
   \<and> \<not> pattern_fits (toLowerCase (replicate 49999 (CHR ''a'')))
   \<and> rows
       \<lparr>rows =
          [\<lparr>rowid = 1, name = ''Cold'', symptoms = ''Cough'', causes = ''Virus'',
                prevention = ''Rest'', when_to_see_doctor = ''Fever''\<rparr>,
           \<lparr>rowid = 2, name = ''Flu'', symptoms = ''Fever'', causes = ''Virus'',
                prevention = ''Vaccine'', when_to_see_doctor = ''Always''\<rparr>],
         sqlite_sequence = 2\<rparr>
     \<noteq> []
   \<and> post_chatbot
       \<lparr>rows =
          [\<lparr>rowid = 1, name = ''Cold'', symptoms = ''Cough'', causes = ''Virus'',
                prevention = ''Rest'', when_to_see_doctor = ''Fever''\<rparr>,
           \<lparr>rowid = 2, name = ''Flu'', symptoms = ''Fever'', causes = ''Virus'',
                prevention = ''Vaccine'', when_to_see_doctor = ''Always''\<rparr>],
         sqlite_sequence = 2\<rparr>
       (JString (replicate 49999 (CHR ''a'')))
     = Inr \<lparr>status = 500, body = ErrorJson (SqliteMessage LikeTooComplex)\<rparr>"
proof -
  let ?r1 = "\<lparr>rowid = 1, name = ''Cold'', symptoms = ''Cough'', causes = ''Virus'',
                     prevention = ''Rest'', when_to_see_doctor = ''Fever''\<rparr>"
  let ?r2 = "\<lparr>rowid = 2, name = ''Flu'', symptoms = ''Fever'', causes = ''Virus'',
                     prevention = ''Vaccine'', when_to_see_doctor = ''Always''\<rparr>"
  let ?d = "\<lparr>rows = [?r1, ?r2], sqlite_sequence = 2\<rparr>"
  have h1: "pattern_fits (toLowerCase ''xyzxyz-unknown'')"
      "list_all (\<lambda>x. \<not> row_selects (toLowerCase ''xyzxyz-unknown'') x) (rows ?d)"
    by code_simp+
  have h2: "pattern_fits (toLowerCase ''Fever'')"
      "list_ex (row_selects (toLowerCase ''Fever'')) (rows ?d)"
      "rows ?d = [?r1] @ ?r2 # []"
      "list_all (\<lambda>x. \<not> row_selects (toLowerCase ''Fever'') x) [?r1]"
      "row_selects (toLowerCase ''Fever'') ?r2"
    by code_simp+
  have h3: "\<not> pattern_fits (toLowerCase (replicate 49999 (CHR ''a'')))"
    by (rule too_long_a) simp
  have h4: "rows ?d \<noteq> []"
    by simp
  from h1 chatbot_reply [where m = "''xyzxyz-unknown''" and d = ?d]
  have c1: "post_chatbot ?d (JString ''xyzxyz-unknown'')
      = Inr \<lparr>status = 200, body = ReplyJson fallback_reply None\<rparr>"
    by blast
  from h2 chatbot_reply [where m = "''Fever''" and d = ?d and pre = "[?r1]" and r = ?r2
      and post = "[]"]
  have c2: "post_chatbot ?d (JString ''Fever'')
      = Inr \<lparr>status = 200,
             body = ReplyJson (formatChatbotResponse ?r2 (toLowerCase ''Fever'')) (Some ?r2)\<rparr>"
    by blast
  from h3 h4 chatbot_reply [where m = "replicate 49999 (CHR ''a'')" and d = ?d]
  have c3: "post_chatbot ?d (JString (replicate 49999 (CHR ''a'')))
      = Inr \<lparr>status = 500, body = ErrorJson (SqliteMessage LikeTooComplex)\<rparr>"
    by blast
  show ?thesis
    by (intro conjI h1 h2 h3 h4 c1 c2 c3)
qed

text \<open>
  C4 as it is stated fails for a long message: 49999 letters \<open>a\<close> occur in no field of
  the two rows, and the answer is not the fallback reply but a 500.
\<close>

theorem chatbot_reply_counterexample:
  "post_chatbot
     \<lparr>rows =
        [\<lparr>rowid = 1, name = ''Cold'', symptoms = ''Cough'', causes = ''Virus'',
              prevention = ''Rest'', when_to_see_doctor = ''Fever''\<rparr>,
         \<lparr>rowid = 2, name = ''Flu'', symptoms = ''Fever'', causes = ''Virus'',
              prevention = ''Vaccine'', when_to_see_doctor = ''Always''\<rparr>],
       sqlite_sequence = 2\<rparr>
     (JString (replicate 49999 (CHR ''a'')))
     = Inr \<lparr>status = 500, body = ErrorJson (SqliteMessage LikeTooComplex)\<rparr>
   \<and> \<not> spec_matches (replicate 49999 (CHR ''a''))
       \<lparr>rowid = 1, name = ''Cold'', symptoms = ''Cough'', causes = ''Virus'',
               prevention = ''Rest'', when_to_see_doctor = ''Fever''\<rparr>
   \<and> \<not> spec_matches (replicate 49999 (CHR ''a''))
       \<lparr>rowid = 2, name = ''Flu'', symptoms = ''Fever'', causes = ''Virus'',
               prevention = ''Vaccine'', when_to_see_doctor = ''Always''\<rparr>"
proof -
  have "\<not> pattern_fits (toLowerCase (replicate 49999 (CHR ''a'')))"
    by (rule too_long_a) simp
  then have a: "post_chatbot
     \<lparr>rows =
        [\<lparr>rowid = 1, name = ''Cold'', symptoms = ''Cough'', causes = ''Virus'',
              prevention = ''Rest'', when_to_see_doctor = ''Fever''\<rparr>,
         \<lparr>rowid = 2, name = ''Flu'', symptoms = ''Fever'', causes = ''Virus'',
              prevention = ''Vaccine'', when_to_see_doctor = ''Always''\<rparr>],
       sqlite_sequence = 2\<rparr>
     (JString (replicate 49999 (CHR ''a'')))
     = Inr \<lparr>status = 500, body = ErrorJson (SqliteMessage LikeTooComplex)\<rparr>"
    by (rule post_chatbot_too_long) simp
  have b: "\<not> spec_matches (replicate 49999 (CHR ''a''))
       \<lparr>rowid = 1, name = ''Cold'', symptoms = ''Cough'', causes = ''Virus'',
               prevention = ''Rest'', when_to_see_doctor = ''Fever''\<rparr>"
    by (rule spec_matches_short) simp_all
  have c: "\<not> spec_matches (replicate 49999 (CHR ''a''))
       \<lparr>rowid = 2, name = ''Flu'', symptoms = ''Fever'', causes = ''Virus'',
               prevention = ''Vaccine'', when_to_see_doctor = ''Always''\<rparr>"
    by (rule spec_matches_short) simp_all
  show ?thesis
    by (intro conjI a b c)
qed

text \<open>
  C10. When the body of the request has no message, or a message that is not a string,
  the handler throws at \<open>message.toLowerCase()\<close>, whatever the store holds: no search
  runs, and the answer is neither the fallback reply nor any other answer of the handler.
\<close>

theorem chatbot_without_message:
  "\<not> is_string message \<Longrightarrow>
   post_chatbot d message = Inl TypeError
   \<and> post_chatbot d message \<noteq> Inr \<lparr>status = 200, body = ReplyJson fallback_reply None\<rparr>"
  by (cases message) (simp_all add: post_chatbot_def)

theorem chatbot_without_message_witness:
  "\<not> is_string JUndefined
   \<and> post_chatbot (createTables fresh) JUndefined = Inl TypeError
   \<and> post_chatbot (createTables fresh) JUndefined
      \<noteq> Inr \<lparr>status = 200, body = ReplyJson fallback_reply None\<rparr>"
  using chatbot_without_message [of JUndefined "createTables fresh"] by simp

section \<open>Reading and writing rows\<close>

lemma largest_Max: "largest d = Max (insert (sqlite_sequence d) (ids d))"
proof -
  have "largest d = Max (set (sqlite_sequence d # map rowid (rows d)))"
    unfolding largest_def by (simp only: Max.set_eq_fold)
  then show ?thesis by (simp add: ids_def)
qed

lemma rowid_le_largest: "r \<in> set (rows d) \<Longrightarrow> rowid r \<le> largest d"
  unfolding largest_Max by (rule Max_ge) (auto simp: ids_def)

lemma sequence_le_largest: "sqlite_sequence d \<le> largest d"
  unfolding largest_Max by (rule Max_ge) (auto simp: ids_def)

lemma find_append_new:
  "\<forall>x \<in> set xs. \<not> P x \<Longrightarrow> P y \<Longrightarrow> find P (xs @ [y]) = Some y"
  by (induction xs) auto

lemma not_null_full_body: "not_null (full_body n s c p w) = None"
  by (simp add: not_null_def full_body_def)

lemma new_row_full_body:
  "new_row i (full_body n s c p w) =
     \<lparr>rowid = i, name = n, symptoms = s, causes = c, prevention = p, when_to_see_doctor = w\<rparr>"
  by (simp add: new_row_def full_body_def text_of_def)

lemma sql_get_inserted:
  "sql_get \<lparr>rows = rows d @ [new_row (largest d + 1) b], sqlite_sequence = k\<rparr> (largest d + 1)
     = Some (new_row (largest d + 1) b)"
proof -
  have "\<forall>x \<in> set (rows d). \<not> rowid x = largest d + 1"
    using rowid_le_largest by fastforce
  then show ?thesis
    by (simp add: sql_get_def find_append_new new_row_def)
qed

text \<open>
  C5. A create whose body holds all five texts (empty or not) succeeds with a new id
  unless no row id is left; and whenever it answers with an id, a read of that id in the
  resulting store returns a record with that id and exactly the five texts of the body.
\<close>

theorem create_then_get:
  "(largest d < MAX_ROWID \<longrightarrow>
      (\<exists>i d'. post_disease d (full_body n s c p w)
         = (\<lparr>status = 200, body = MessageIdJson ''Disease added successfully'' i\<rparr>, d')))
   \<and> (post_disease d (full_body n s c p w) = (\<lparr>status = 200, body = MessageIdJson msg i\<rparr>, d')
        \<longrightarrow> get_disease d' i =
          \<lparr>status = 200,
           body = DiseaseJson \<lparr>rowid = i, name = n, symptoms = s, causes = c,
                               prevention = p, when_to_see_doctor = w\<rparr>\<rparr>)"
proof -
  have a: "\<exists>i d'. post_disease d (full_body n s c p w)
         = (\<lparr>status = 200, body = MessageIdJson ''Disease added successfully'' i\<rparr>, d')"
    if "largest d < MAX_ROWID"
    using that by (simp add: post_disease_def sql_insert_def not_null_full_body res_json_def)
  have b: "get_disease d' i =
          \<lparr>status = 200,
           body = DiseaseJson \<lparr>rowid = i, name = n, symptoms = s, causes = c,
                               prevention = p, when_to_see_doctor = w\<rparr>\<rparr>"
    if "post_disease d (full_body n s c p w) = (\<lparr>status = 200, body = MessageIdJson msg i\<rparr>, d')"
  proof -
    from that have "i = largest d + 1"
        and "d' = \<lparr>rows = rows d @ [new_row (largest d + 1) (full_body n s c p w)],
                   sqlite_sequence = largest d + 1\<rparr>"
      by (auto simp: post_disease_def sql_insert_def not_null_full_body res_json_def
          res_status_json_def split: if_splits)
    then show ?thesis
      by (simp only: get_disease_def sql_get_inserted)
         (simp add: res_json_def new_row_full_body)
  qed
  from a b show ?thesis by blast
qed


text \<open>
  The first create on the fresh table answers with id 1, and the record reads back.
\<close>

theorem create_then_get_witness:
  "largest fresh < MAX_ROWID
   \<and> post_disease fresh (full_body ''Flu'' ''Fever'' ''Virus'' ''Rest'' ''Always'')
      = (\<lparr>status = 200, body = MessageIdJson ''Disease added successfully'' 1\<rparr>,
         snd (post_disease fresh (full_body ''Flu'' ''Fever'' ''Virus'' ''Rest'' ''Always'')))
   \<and> get_disease (snd (post_disease fresh (full_body ''Flu'' ''Fever'' ''Virus'' ''Rest'' ''Always''))) 1
      = \<lparr>status = 200,
         body = DiseaseJson \<lparr>rowid = 1, name = ''Flu'', symptoms = ''Fever'', causes = ''Virus'',
                             prevention = ''Rest'', when_to_see_doctor = ''Always''\<rparr>\<rparr>"
proof -
  have h: "largest fresh < MAX_ROWID"
    by code_simp
  have p: "post_disease fresh (full_body ''Flu'' ''Fever'' ''Virus'' ''Rest'' ''Always'')
      = (\<lparr>status = 200, body = MessageIdJson ''Disease added successfully'' 1\<rparr>,
         snd (post_disease fresh (full_body ''Flu'' ''Fever'' ''Virus'' ''Rest'' ''Always'')))"
    by code_simp
  from h p create_then_get [where d = fresh and n = "''Flu''" and s = "''Fever''"
      and c = "''Virus''" and p = "''Rest''" and w = "''Always''" and i = 1
      and msg = "''Disease added successfully''"
      and d' = "snd (post_disease fresh (full_body ''Flu'' ''Fever'' ''Virus'' ''Rest'' ''Always''))"]
  show ?thesis by blast
qed

lemma find_map_keep:
  "(\<And>x. P (f x) = P x) \<Longrightarrow> find P (map f xs) = map_option f (find P xs)"
  by (induction xs) auto

lemma rowid_set_columns: "rowid (set_columns b r) = rowid r"
  by (simp add: set_columns_def)

lemma set_columns_full_body:
  "set_columns (full_body n s c p w) r =
     \<lparr>rowid = rowid r, name = n, symptoms = s, causes = c, prevention = p,
      when_to_see_doctor = w\<rparr>"
  by (simp add: set_columns_def full_body_def text_of_def)

lemma find_rowid_Some:
  "i \<in> rowid ` set xs \<Longrightarrow> \<exists>r. find (\<lambda>r. rowid r = i) xs = Some r \<and> rowid r = i"
  by (induction xs) auto

lemma filter_rowid_empty: "(filter (\<lambda>r. rowid r = i) xs = []) = (i \<notin> rowid ` set xs)"
  by (induction xs) auto

lemma filter_rowid_all: "i \<notin> rowid ` set xs \<Longrightarrow> filter (\<lambda>r. rowid r \<noteq> i) xs = xs"
  by (induction xs) auto

lemma find_rowid_None: "i \<notin> rowid ` set xs \<Longrightarrow> find (\<lambda>r. rowid r = i) xs = None"
  by (induction xs) auto

text \<open>
  C6. For every id that a row of the store has and every body that holds all five
  texts, the update succeeds, and a read of the id in the resulting store returns the
  id with exactly the five texts of the body: nothing of the row's earlier texts is
  kept.
\<close>

theorem update_then_get:
  "i \<in> ids d \<Longrightarrow>
   put_disease d i (full_body n s c p w)
     = (\<lparr>status = 200, body = MessageJson ''Disease updated successfully''\<rparr>,
        snd (put_disease d i (full_body n s c p w)))
   \<and> get_disease (snd (put_disease d i (full_body n s c p w))) i
     = \<lparr>status = 200,
        body = DiseaseJson \<lparr>rowid = i, name = n, symptoms = s, causes = c,
                            prevention = p, when_to_see_doctor = w\<rparr>\<rparr>"
proof -
  assume i: "i \<in> ids d"
  let ?b = "full_body n s c p w"
  let ?f = "\<lambda>r. if rowid r = i then set_columns ?b r else r"
  let ?d' = "d\<lparr>rows := map ?f (rows d)\<rparr>"
  from i have ne: "filter (\<lambda>r. rowid r = i) (rows d) \<noteq> []"
    by (simp add: filter_rowid_empty ids_def)
  then have put: "put_disease d i ?b
      = (\<lparr>status = 200, body = MessageJson ''Disease updated successfully''\<rparr>, ?d')"
    by (simp add: put_disease_def sql_update_def not_null_full_body res_json_def)
  from i obtain r where r: "find (\<lambda>r. rowid r = i) (rows d) = Some r" "rowid r = i"
    using find_rowid_Some [of i "rows d"] by (auto simp: ids_def)
  have "find (\<lambda>r. rowid r = i) (map ?f (rows d)) = map_option ?f (find (\<lambda>r. rowid r = i) (rows d))"
    by (rule find_map_keep) (simp add: rowid_set_columns)
  with r have "sql_get ?d' i = Some (set_columns ?b r)"
    by (simp add: sql_get_def)
  with r(2) have "get_disease ?d' i
     = \<lparr>status = 200,
        body = DiseaseJson \<lparr>rowid = i, name = n, symptoms = s, causes = c,
                            prevention = p, when_to_see_doctor = w\<rparr>\<rparr>"
    by (simp add: get_disease_def res_json_def set_columns_full_body)
  with put show ?thesis by simp
qed

text \<open>Row 3 of the sample store takes five new texts.\<close>

theorem update_then_get_witness:
  "3 \<in> ids (createTables fresh)
   \<and> put_disease (createTables fresh) 3 (full_body ''Flu'' ''Fever'' ''Virus'' ''Rest'' ''Always'')
      = (\<lparr>status = 200, body = MessageJson ''Disease updated successfully''\<rparr>,
         snd (put_disease (createTables fresh) 3
               (full_body ''Flu'' ''Fever'' ''Virus'' ''Rest'' ''Always'')))
   \<and> get_disease (snd (put_disease (createTables fresh) 3
                         (full_body ''Flu'' ''Fever'' ''Virus'' ''Rest'' ''Always''))) 3
      = \<lparr>status = 200,
         body = DiseaseJson \<lparr>rowid = 3, name = ''Flu'', symptoms = ''Fever'', causes = ''Virus'',
                             prevention = ''Rest'', when_to_see_doctor = ''Always''\<rparr>\<rparr>"
proof -
  have h: "3 \<in> ids (createTables fresh)"
    by code_simp
  from h update_then_get [OF h, of "''Flu''" "''Fever''" "''Virus''" "''Rest''" "''Always''"]
  show ?thesis by blast
qed

text \<open>
  C7. For every id that no row of the store has, the read, the update (whatever its
  body) and the delete each answer 404 with the error \<open>Disease not found\<close>, and the
  store stays as it was. Hence after a delete of any id, a read of it and a second
  delete of it answer the same 404.
\<close>

theorem missing_id_not_found:
  "(i \<notin> ids d \<longrightarrow>
      get_disease d i = not_found \<and> put_disease d i b = (not_found, d)
      \<and> delete_disease d i = (not_found, d))
   \<and> get_disease (snd (delete_disease d i)) i = not_found
   \<and> delete_disease (snd (delete_disease d i)) i = (not_found, snd (delete_disease d i))"
proof -
  have a: "get_disease e i = not_found \<and> put_disease e i b = (not_found, e)
      \<and> delete_disease e i = (not_found, e)" if "i \<notin> ids e" for e
  proof -
    from that have n: "i \<notin> rowid ` set (rows e)" by (simp add: ids_def)
    then have "filter (\<lambda>r. rowid r = i) (rows e) = []"
      by (simp add: filter_rowid_empty)
    with n show ?thesis
      by (simp add: get_disease_def sql_get_def find_rowid_None put_disease_def sql_update_def
          delete_disease_def sql_delete_def filter_rowid_all not_found_def res_status_json_def)
  qed
  have "i \<notin> ids (snd (delete_disease d i))"
    by (auto simp: delete_disease_def sql_delete_def ids_def)
  with a [of "snd (delete_disease d i)"] a [of d] show ?thesis by blast
qed

text \<open>The sample store has no row 9.\<close>

theorem missing_id_not_found_witness:
  "9 \<notin> ids (createTables fresh)
   \<and> get_disease (createTables fresh) 9 = not_found
   \<and> put_disease (createTables fresh) 9 (full_body ''Flu'' ''Fever'' ''Virus'' ''Rest'' ''Always'')
      = (not_found, createTables fresh)
   \<and> delete_disease (createTables fresh) 9 = (not_found, createTables fresh)"
proof -
  have h: "9 \<notin> ids (createTables fresh)"
    by code_simp
  from h missing_id_not_found [of 9 "createTables fresh"
      "full_body ''Flu'' ''Fever'' ''Virus'' ''Rest'' ''Always''"]
  show ?thesis by blast
qed

section \<open>Seeding\<close>

lemma stmt_run_cases:
  "stmt_run d b = d \<or>
   stmt_run d b = \<lparr>rows = rows d @ [new_row (largest d + 1) b], sqlite_sequence = largest d + 1\<rparr>"
  by (simp add: stmt_run_def sql_insert_def split: option.splits)

lemma stmt_run_full:
  "largest d < MAX_ROWID \<Longrightarrow> not_null b = None \<Longrightarrow>
   stmt_run d b = \<lparr>rows = rows d @ [new_row (largest d + 1) b], sqlite_sequence = largest d + 1\<rparr>"
  by (simp add: stmt_run_def sql_insert_def)

lemma rowid_new_row: "rowid (new_row i b) = i"
  by (simp add: new_row_def)

lemma ids_finite: "finite (ids d)"
  by (simp add: ids_def)

lemma largest_inserted:
  "largest \<lparr>rows = rows d @ [new_row (largest d + 1) b], sqlite_sequence = largest d + 1\<rparr>
     = largest d + 1"
proof -
  let ?e = "\<lparr>rows = rows d @ [new_row (largest d + 1) b], sqlite_sequence = largest d + 1\<rparr>"
  have "ids ?e = insert (largest d + 1) (ids d)"
    by (auto simp: ids_def rowid_new_row)
  then have "largest ?e = Max (insert (largest d + 1) (ids d))"
    by (simp add: largest_Max)
  moreover have "\<forall>x \<in> ids d. x \<le> largest d + 1"
    using rowid_le_largest by (fastforce simp: ids_def)
  ultimately show ?thesis
    by (simp add: Max_insert2 ids_finite)
qed

lemma stmt_run_length:
  "length (rows d) \<le> length (rows (stmt_run d b)) \<and> length (rows (stmt_run d b)) \<le> Suc (length (rows d))"
  using stmt_run_cases [of d b] by auto

lemma stmt_run_same: "rows (stmt_run d b) = [] \<Longrightarrow> stmt_run d b = d"
  using stmt_run_cases [of d b] by auto

lemma foldl_stmt_run_length:
  "length (rows d) \<le> length (rows (foldl stmt_run d bs))
   \<and> length (rows (foldl stmt_run d bs)) \<le> length (rows d) + length bs"
proof (induction bs arbitrary: d)
  case Nil
  then show ?case by simp
next
  case (Cons b bs)
  from Cons.IH [of "stmt_run d b"] stmt_run_length [of d b]
  show ?case by simp
qed

lemma foldl_stmt_run_same:
  "rows (foldl stmt_run d bs) = [] \<Longrightarrow> foldl stmt_run d bs = d"
proof (induction bs arbitrary: d)
  case Nil
  then show ?case by simp
next
  case (Cons b bs)
  then have e: "rows (foldl stmt_run (stmt_run d b) bs) = []" by simp
  with foldl_stmt_run_length [of "stmt_run d b" bs] have "rows (stmt_run d b) = []"
    by simp
  then have "stmt_run d b = d" by (rule stmt_run_same)
  with Cons.IH [OF e] show ?case by simp
qed

lemma foldl_stmt_run_rows:
  "list_all (\<lambda>b. not_null b = None) bs \<Longrightarrow> largest d + int (length bs) \<le> MAX_ROWID \<Longrightarrow>
   rows (foldl stmt_run d bs)
     = rows d @ map (\<lambda>(k, b). new_row (largest d + 1 + int k) b) (enumerate 0 bs)"
proof (induction bs arbitrary: d)
  case Nil
  then show ?case by simp
next
  case (Cons b bs)
  let ?e = "\<lparr>rows = rows d @ [new_row (largest d + 1) b], sqlite_sequence = largest d + 1\<rparr>"
  from Cons.prems have s: "stmt_run d b = ?e"
    by (intro stmt_run_full) auto
  have l: "largest ?e = largest d + 1" by (rule largest_inserted)
  from Cons.prems l have "rows (foldl stmt_run ?e bs)
     = rows ?e @ map (\<lambda>(k, b). new_row (largest ?e + 1 + int k) b) (enumerate 0 bs)"
    by (intro Cons.IH) auto
  also have "map (\<lambda>(k, b). new_row (largest ?e + 1 + int k) b) (enumerate 0 bs)
      = map (\<lambda>(k, b). new_row (largest d + 1 + int k) b) (enumerate (Suc 0) bs)"
    unfolding l by (simp add: enumerate_Suc_eq split_def add.commute add.left_commute)
  finally show ?case using s by simp
qed

lemma sample_not_null: "list_all (\<lambda>b. not_null b = None) sampleDiseases"
  by code_simp

lemma sample_length: "length sampleDiseases = 5"
  by code_simp

text \<open>
  C8. \<open>insertSampleData\<close> changes nothing when the table holds a row; on an empty table
  with five row ids left it inserts the five samples, in their order, under the next
  five ids. Running it twice gives what running it once gives, so after two runs on an
  empty table there are never more than five rows.
\<close>

theorem seeding_idempotent:
  "(rows d \<noteq> [] \<longrightarrow> insertSampleData d = d)
   \<and> (rows d = [] \<and> largest d + 5 \<le> MAX_ROWID \<longrightarrow>
        rows (insertSampleData d)
          = map (\<lambda>(k, b). new_row (largest d + 1 + int k) b) (enumerate 0 sampleDiseases)
        \<and> length (rows (insertSampleData d)) = 5)
   \<and> insertSampleData (insertSampleData d) = insertSampleData d
   \<and> (rows d = [] \<longrightarrow> length (rows (insertSampleData (insertSampleData d))) \<le> 5)"
proof -
  have a: "insertSampleData d = d" if "rows d \<noteq> []"
    using that by (simp add: insertSampleData_def)
  have b: "rows (insertSampleData d)
          = map (\<lambda>(k, b). new_row (largest d + 1 + int k) b) (enumerate 0 sampleDiseases)"
    if "rows d = []" "largest d + 5 \<le> MAX_ROWID"
    using that foldl_stmt_run_rows [OF sample_not_null, of d]
    by (simp add: insertSampleData_def sample_length)
  have c: "insertSampleData (insertSampleData d) = insertSampleData d"
  proof (cases "rows d = []")
    case False
    then show ?thesis by (simp add: insertSampleData_def)
  next
    case True
    show ?thesis
    proof (cases "rows (insertSampleData d) = []")
      case False
      then show ?thesis by (simp add: insertSampleData_def [of "insertSampleData d"])
    next
      case e: True
      with True have "insertSampleData d = d"
        using foldl_stmt_run_same [of d sampleDiseases] by (simp add: insertSampleData_def)
      then show ?thesis by simp
    qed
  qed
  have d: "length (rows (insertSampleData d)) \<le> 5" if "rows d = []"
    using that foldl_stmt_run_length [of d sampleDiseases]
    by (simp add: insertSampleData_def sample_length)
  from b have b': "length (rows (insertSampleData d)) = 5"
    if "rows d = []" "largest d + 5 \<le> MAX_ROWID"
    using that by (simp add: sample_length)
  from a b b' c d show ?thesis by simp
qed

text \<open>The fresh table takes the five samples; the second run finds rows and adds none.\<close>

theorem seeding_idempotent_witness:
  "rows fresh = [] \<and> largest fresh + 5 \<le> MAX_ROWID
   \<and> length (rows (insertSampleData fresh)) = 5
   \<and> rows (insertSampleData fresh) \<noteq> []
   \<and> insertSampleData (insertSampleData fresh) = insertSampleData fresh
   \<and> length (rows (insertSampleData (insertSampleData fresh))) \<le> 5"
proof -
  have h: "rows fresh = [] \<and> largest fresh + 5 \<le> MAX_ROWID"
    by code_simp
  from h seeding_idempotent [of fresh]
  have a: "length (rows (insertSampleData fresh)) = 5"
      "length (rows (insertSampleData (insertSampleData fresh))) \<le> 5"
    by blast+
  from a(1) have n: "rows (insertSampleData fresh) \<noteq> []"
    by auto
  from n seeding_idempotent [of "insertSampleData fresh"]
  have "insertSampleData (insertSampleData fresh) = insertSampleData fresh"
    by blast
  with h a n show ?thesis by blast
qed

section \<open>Row ids\<close>

lemma table_inv_largest: "table_inv d \<Longrightarrow> largest d = sqlite_sequence d"
proof -
  assume "table_inv d"
  then have "\<forall>x \<in> ids d. x \<le> sqlite_sequence d"
    by (auto simp: table_inv_def list_all_iff ids_def)
  then show ?thesis
    unfolding largest_Max by (simp add: Max_insert2 ids_finite)
qed

lemma table_inv_fresh: "table_inv fresh"
  by (simp add: table_inv_def fresh_def)

lemma table_inv_inserted:
  assumes "table_inv d"
  shows "table_inv \<lparr>rows = rows d @ [new_row (largest d + 1) b], sqlite_sequence = largest d + 1\<rparr>"
proof -
  from assms have l: "largest d = sqlite_sequence d" by (rule table_inv_largest)
  from assms have "\<forall>r \<in> set (rows d). rowid r \<le> sqlite_sequence d"
    by (simp add: table_inv_def list_all_iff)
  then have "sqlite_sequence d + 1 \<notin> rowid ` set (rows d)"
      and "\<forall>r \<in> set (rows d). rowid r \<le> sqlite_sequence d + 1"
    by fastforce+
  with assms show ?thesis
    by (simp add: table_inv_def l rowid_new_row list_all_iff)
qed

lemma table_inv_stmt_run: "table_inv d \<Longrightarrow> table_inv (stmt_run d b)"
  using stmt_run_cases [of d b] table_inv_inserted [of d b] by auto

lemma table_inv_foldl: "table_inv d \<Longrightarrow> table_inv (foldl stmt_run d bs)"
  by (induction bs arbitrary: d) (simp_all add: table_inv_stmt_run)

lemma post_disease_cases:
  "snd (post_disease d b) = d \<or>
   snd (post_disease d b)
     = \<lparr>rows = rows d @ [new_row (largest d + 1) b], sqlite_sequence = largest d + 1\<rparr>"
  by (simp add: post_disease_def sql_insert_def split: option.splits)

lemma put_disease_cases:
  "snd (put_disease d i b) = d \<or>
   snd (put_disease d i b)
     = d\<lparr>rows := map (\<lambda>r. if rowid r = i then set_columns b r else r) (rows d)\<rparr>"
  by (simp add: put_disease_def sql_update_def split: option.splits)

lemma delete_disease_snd:
  "snd (delete_disease d i) = d\<lparr>rows := filter (\<lambda>r. rowid r \<noteq> i) (rows d)\<rparr>"
  by (simp add: delete_disease_def sql_delete_def)

lemma table_inv_alt:
  "table_inv d = (distinct (map rowid (rows d))
     \<and> (\<forall>k \<in> set (map rowid (rows d)). k \<le> sqlite_sequence d))"
  by (auto simp: table_inv_def list_all_iff)

lemma ids_map: "ids d = set (map rowid (rows d))"
  by (simp add: ids_def)

lemma map_rowid_update:
  "map rowid (rows (d\<lparr>rows := map (\<lambda>r. if rowid r = i then set_columns b r else r) (rows d)\<rparr>))
     = map rowid (rows d)"
  by (induction "rows d") (simp_all add: rowid_set_columns)

lemma table_inv_updated:
  assumes "table_inv d"
  shows "table_inv (d\<lparr>rows := map (\<lambda>r. if rowid r = i then set_columns b r else r) (rows d)\<rparr>)"
proof -
  let ?e = "d\<lparr>rows := map (\<lambda>r. if rowid r = i then set_columns b r else r) (rows d)\<rparr>"
  have m: "map rowid (rows ?e) = map rowid (rows d)" by (rule map_rowid_update)
  have s: "sqlite_sequence ?e = sqlite_sequence d" by simp
  show ?thesis
    unfolding table_inv_alt [of ?e] m s using assms [unfolded table_inv_alt] .
qed

lemma table_inv_deleted:
  "table_inv d \<Longrightarrow> table_inv (d\<lparr>rows := filter (\<lambda>r. rowid r \<noteq> i) (rows d)\<rparr>)"
  by (simp add: table_inv_def distinct_map_filter list_all_iff)

lemma table_inv_handle: "table_inv d \<Longrightarrow> table_inv (handle d r)"
proof (cases r)
  case Start
  assume "table_inv d"
  then show ?thesis
    by (simp add: Start createTables_def insertSampleData_def table_inv_foldl)
next
  case (PostDisease b)
  assume "table_inv d"
  then show ?thesis
    using post_disease_cases [of d b] table_inv_inserted [of d b] by (auto simp: PostDisease)
next
  case (PutDisease i b)
  assume "table_inv d"
  then show ?thesis
    using put_disease_cases [of d i b] table_inv_updated [of d i b] by (auto simp: PutDisease)
next
  case (DeleteDisease i)
  assume "table_inv d"
  then show ?thesis
    by (simp add: DeleteDisease delete_disease_snd table_inv_deleted)
qed simp_all

lemma table_inv_run: "table_inv d \<Longrightarrow> table_inv (run d rs)"
  unfolding run_def by (induction rs arbitrary: d) (simp_all add: table_inv_handle)

lemma retired_inserted:
  assumes "table_inv d" "i \<le> sqlite_sequence d" "i \<notin> ids d"
  shows "i \<le> sqlite_sequence \<lparr>rows = rows d @ [new_row (largest d + 1) b], sqlite_sequence = largest d + 1\<rparr>
    \<and> i \<notin> ids \<lparr>rows = rows d @ [new_row (largest d + 1) b], sqlite_sequence = largest d + 1\<rparr>"
  using assms table_inv_largest [OF assms(1)] by (auto simp: ids_def rowid_new_row)

lemma retired_stmt_run:
  "table_inv d \<Longrightarrow> i \<le> sqlite_sequence d \<Longrightarrow> i \<notin> ids d \<Longrightarrow>
   i \<le> sqlite_sequence (stmt_run d b) \<and> i \<notin> ids (stmt_run d b)"
  using stmt_run_cases [of d b] retired_inserted [of d i b] by auto

lemma retired_foldl:
  "table_inv d \<Longrightarrow> i \<le> sqlite_sequence d \<Longrightarrow> i \<notin> ids d \<Longrightarrow>
   i \<le> sqlite_sequence (foldl stmt_run d bs) \<and> i \<notin> ids (foldl stmt_run d bs)"
proof (induction bs arbitrary: d)
  case Nil
  then show ?case by simp
next
  case (Cons b bs)
  from Cons.prems have "table_inv (stmt_run d b)"
      "i \<le> sqlite_sequence (stmt_run d b) \<and> i \<notin> ids (stmt_run d b)"
    by (simp_all add: table_inv_stmt_run retired_stmt_run)
  then show ?case using Cons.IH [of "stmt_run d b"] by simp
qed

lemma retired_handle:
  assumes "table_inv d" "i \<le> sqlite_sequence d" "i \<notin> ids d"
  shows "i \<le> sqlite_sequence (handle d r) \<and> i \<notin> ids (handle d r)"
proof (cases r)
  case Start
  from assms have "i \<le> sqlite_sequence (foldl stmt_run d sampleDiseases)
      \<and> i \<notin> ids (foldl stmt_run d sampleDiseases)"
    by (rule retired_foldl)
  with assms(2,3) show ?thesis
    unfolding Start handle.simps createTables_def insertSampleData_def by presburger
next
  case (PostDisease b)
  from post_disease_cases [of d b] show ?thesis
  proof
    assume "snd (post_disease d b) = d"
    with assms(2,3) show ?thesis unfolding PostDisease handle.simps by simp
  next
    assume e: "snd (post_disease d b)
      = \<lparr>rows = rows d @ [new_row (largest d + 1) b], sqlite_sequence = largest d + 1\<rparr>"
    show ?thesis
      unfolding PostDisease handle.simps e using assms by (rule retired_inserted)
  qed
next
  case (PutDisease j b)
  let ?e = "d\<lparr>rows := map (\<lambda>r. if rowid r = j then set_columns b r else r) (rows d)\<rparr>"
  have m: "ids ?e = ids d"
    unfolding ids_map by (simp only: map_rowid_update)
  have s: "sqlite_sequence ?e = sqlite_sequence d" by simp
  from put_disease_cases [of d j b] show ?thesis
  proof
    assume "snd (put_disease d j b) = d"
    with assms(2,3) show ?thesis unfolding PutDisease handle.simps by simp
  next
    assume e: "snd (put_disease d j b) = ?e"
    show ?thesis
      unfolding PutDisease handle.simps e m s using assms(2,3) by simp
  qed
next
  case (DeleteDisease j)
  let ?e = "d\<lparr>rows := filter (\<lambda>r. rowid r \<noteq> j) (rows d)\<rparr>"
  have "ids ?e \<subseteq> ids d" by (auto simp: ids_def)
  moreover have "sqlite_sequence ?e = sqlite_sequence d" by simp
  ultimately show ?thesis
    unfolding DeleteDisease handle.simps delete_disease_snd using assms(2,3) by auto
next
  case GetDiseases
  with assms(2,3) show ?thesis by simp
next
  case (GetDisease j)
  with assms(2,3) show ?thesis by simp
next
  case (PostChatbot m)
  with assms(2,3) show ?thesis by simp
qed

lemma retired_run:
  "table_inv d \<Longrightarrow> i \<le> sqlite_sequence d \<Longrightarrow> i \<notin> ids d \<Longrightarrow>
   table_inv (run d rs) \<and> i \<le> sqlite_sequence (run d rs) \<and> i \<notin> ids (run d rs)"
proof (induction rs arbitrary: d)
  case Nil
  then show ?case by (simp add: run_def)
next
  case (Cons r rs)
  from Cons.prems have "table_inv (handle d r)"
      "i \<le> sqlite_sequence (handle d r)" "i \<notin> ids (handle d r)"
    using retired_handle [of d i r] by (simp_all add: table_inv_handle)
  from Cons.IH [OF this] show ?case by (simp add: run_def)
qed

lemma delete_retires:
  assumes "table_inv d"
    and "delete_disease d i = (\<lparr>status = 200, body = MessageJson msg\<rparr>, d')"
  shows "table_inv d' \<and> i \<le> sqlite_sequence d' \<and> i \<notin> ids d'"
proof -
  from assms(2) have d': "d' = d\<lparr>rows := filter (\<lambda>r. rowid r \<noteq> i) (rows d)\<rparr>"
    using delete_disease_snd [of d i] by simp
  from assms(2) have "filter (\<lambda>r. rowid r = i) (rows d) \<noteq> []"
    by (auto simp: delete_disease_def sql_delete_def res_status_json_def split: if_splits)
  then have "i \<in> rowid ` set (rows d)"
    by (simp add: filter_rowid_empty)
  with assms(1) have "i \<le> sqlite_sequence d"
    by (auto simp: table_inv_def list_all_iff)
  with assms(1) show ?thesis
    unfolding d' by (auto simp: table_inv_deleted ids_def)
qed

text \<open>
  C9. In every state that a history leads to from the fresh table, no two rows share
  an id. And once a delete of an id has succeeded in such a state, the id belongs to no
  row after any further history, and no create after any further history answers with
  that id.
\<close>

theorem ids_unique_never_reused:
  "distinct (map rowid (rows (run fresh rs)))
   \<and> (delete_disease (run fresh rs) i = (\<lparr>status = 200, body = MessageJson msg\<rparr>, d') \<longrightarrow>
        i \<notin> ids (run d' rs')
        \<and> (\<forall>b j msg' d''.
              post_disease (run d' rs') b = (\<lparr>status = 200, body = MessageIdJson msg' j\<rparr>, d'')
              \<longrightarrow> j \<noteq> i))"
proof -
  have inv: "table_inv (run fresh rs)"
    by (simp add: table_inv_run table_inv_fresh)
  then have a: "distinct (map rowid (rows (run fresh rs)))"
    by (simp add: table_inv_def)
  have b: "i \<notin> ids (run d' rs') \<and> j \<noteq> i"
    if del: "delete_disease (run fresh rs) i = (\<lparr>status = 200, body = MessageJson msg\<rparr>, d')"
      and post: "post_disease (run d' rs') b = (\<lparr>status = 200, body = MessageIdJson msg' j\<rparr>, d'')"
    for b j msg' d''
  proof -
    from delete_retires [OF inv del] retired_run [of d' i rs']
    have r: "table_inv (run d' rs')" "i \<le> sqlite_sequence (run d' rs')" "i \<notin> ids (run d' rs')"
      by simp_all
    from post have "j = largest (run d' rs') + 1"
      by (auto simp: post_disease_def sql_insert_def res_json_def res_status_json_def
          split: if_splits option.splits)
    with r show ?thesis by (simp add: table_inv_largest)
  qed
  have c: "i \<notin> ids (run d' rs')"
    if del: "delete_disease (run fresh rs) i = (\<lparr>status = 200, body = MessageJson msg\<rparr>, d')"
    using delete_retires [OF inv del] retired_run [of d' i rs'] by simp
  from a b c show ?thesis by blast
qed

text \<open>
  Row 5 of the sample store is deleted; the next two creates get the ids 6 and 7.
\<close>

theorem ids_unique_never_reused_witness:
  "delete_disease (run fresh [Start]) 5
      = (\<lparr>status = 200, body = MessageJson ''Disease deleted successfully''\<rparr>,
         snd (delete_disease (run fresh [Start]) 5))
   \<and> distinct (map rowid (rows (run fresh [Start])))
   \<and> 5 \<notin> ids (run (snd (delete_disease (run fresh [Start]) 5))
                    [PostDisease (full_body ''Flu'' ''Fever'' ''Virus'' ''Rest'' ''Always'')])
   \<and> fst (post_disease (run (snd (delete_disease (run fresh [Start]) 5))
                    [PostDisease (full_body ''Flu'' ''Fever'' ''Virus'' ''Rest'' ''Always'')])
             (full_body ''Flu'' ''Fever'' ''Virus'' ''Rest'' ''Always''))
      = \<lparr>status = 200, body = MessageIdJson ''Disease added successfully'' 7\<rparr>"
proof -
  have h: "delete_disease (run fresh [Start]) 5
      = (\<lparr>status = 200, body = MessageJson ''Disease deleted successfully''\<rparr>,
         snd (delete_disease (run fresh [Start]) 5))"
    by code_simp
  have p: "fst (post_disease (run (snd (delete_disease (run fresh [Start]) 5))
                    [PostDisease (full_body ''Flu'' ''Fever'' ''Virus'' ''Rest'' ''Always'')])
             (full_body ''Flu'' ''Fever'' ''Virus'' ''Rest'' ''Always''))
      = \<lparr>status = 200, body = MessageIdJson ''Disease added successfully'' 7\<rparr>"
    by code_simp
  from h p ids_unique_never_reused [where rs = "[Start]" and i = 5
      and msg = "''Disease deleted successfully''"
      and d' = "snd (delete_disease (run fresh [Start]) 5)"
      and rs' = "[PostDisease (full_body ''Flu'' ''Fever'' ''Virus'' ''Rest'' ''Always'')]"]
  show ?thesis by blast
qed

end
